theory Spec2Isabelle
  imports Main "HOL-Library.Multiset"
begin

section \<open>The micro-transaction handler of mmog-microtx-js (src/handler.js)\<close>

text \<open>
  The development embeds \<open>handler.js\<close>: the Joi schema \<open>purchaseSchema\<close>, the connection
  cache \<open>getDbClient\<close>, the purchase pipeline \<open>processPurchase\<close>, the simulated payment
  processor \<open>processPayment\<close>, the history read \<open>getPlayerTransactions\<close> and the Lambda
  entry point \<open>handler\<close>.

  Asynchronous functions become functions from a state to an outcome and a successor
  state; a rejected promise (a thrown exception) is the outcome \<open>Inl\<close>. The 50 ms delay
  of the payment simulation, the console output and the write to
  \<open>context.callbackWaitsForEmptyEventLoop\<close> have no counterpart in the model.
\<close>

subsection \<open>Values\<close>

text \<open>
  A number as \<open>JSON.parse\<close> yields it is a double. The schema only asks whether it is
  infinite, whether it has a fractional part, and how an integral one compares with its
  bounds, so a number is kept as one of these three cases.
\<close>

datatype number = Whole int | Fractional | Infinite

datatype json =
    JNull
  | JBool bool
  | JNum number
  | JStr string
  | JArr "json list"
  | JObj "(string \<times> json) list"

text \<open>An object is the list of its own properties, in key order, with distinct keys.\<close>

type_synonym fields = "(string \<times> json) list"

datatype TransactionStatus = PENDING | COMPLETED | FAILED | REFUNDED

fun status_text :: "TransactionStatus \<Rightarrow> string" where
  "status_text PENDING = ''pending''"
| "status_text COMPLETED = ''completed''"
| "status_text FAILED = ''failed''"
| "status_text REFUNDED = ''refunded''"

text \<open>The value Joi hands back for a request that passed \<open>purchaseSchema\<close>.\<close>

record purchase =
  player_id :: string
  item_id :: string
  item_name :: string
  price_cents :: int
  currency :: string
  quantity :: int
  metadata :: "fields option"

text \<open>The argument and the result of \<open>processPayment\<close>.\<close>

record paymentData =
  amount :: int
  currency :: string
  playerId :: string

record paymentResult =
  success :: bool
  processorId :: string
  timestamp :: int
  error :: "string option"

text \<open>
  A row of the table \<open>microtransactions\<close>. Timestamps are milliseconds. An identifier
  is kept as the text that was inserted.
\<close>

record row =
  transaction_id :: string
  player_id :: string
  item_id :: string
  item_name :: string
  price_cents :: int
  currency :: string
  quantity :: int
  status :: TransactionStatus
  processor_id :: "string option"
  metadata :: fields
  created_at :: int
  updated_at :: int

text \<open>
  The values handed to \<open>JSON.stringify\<close>. \<open>Rows\<close> is the array \<open>result.rows\<close> as the
  store client returns it.
\<close>

datatype out =
    Str string
  | Num int
  | Arr "out list"
  | Rows "row list"
  | Obj "(string \<times> out) list"

fun field :: "string \<Rightarrow> out \<Rightarrow> out option" where
  "field k (Obj fs) = map_of fs k"
| "field k v = None"

datatype error = Database string | TypeError string | SyntaxError string

fun error_message :: "error \<Rightarrow> string" where
  "error_message (Database m) = m"
| "error_message (TypeError m) = m"
| "error_message (SyntaxError m) = m"

subsection \<open>The store and the connection cache\<close>

text \<open>
  \<open>table\<close> holds the committed rows and \<open>txn\<close> the rows as the open transaction of the
  cached connection sees them (\<open>None\<close> outside a transaction). \<open>cachedClient\<close> tells
  whether the module variable of that name is set; no path of the module ends a client, so
  its \<open>_ending\<close> flag stays unset. \<open>faults\<close> schedules the coming calls on the client:
  \<open>Some m\<close> makes the next call throw an error with message \<open>m\<close>, for whatever reason
  the store has (unreachable, a violated constraint, a malformed value); an exhausted
  schedule lets every call pass. \<open>authorized\<close> records the payment requests that
  reached the processor. \<open>tie\<close> stands for whatever decides, inside the store, the
  order of rows that an \<open>ORDER BY\<close> clause does not separate; nothing is assumed about
  it.

  A statement that runs does what its text says. What the schema adds on the side of the
  store (its check constraints, its trigger on \<open>updated_at\<close>) is not spelled out: a
  statement that the store refuses is a scheduled throw.
\<close>

record state =
  table :: "row list"
  cachedClient :: bool
  txn :: "row list option"
  faults :: "string option list"
  authorized :: "paymentData list"
  tie :: "row \<Rightarrow> int"

text \<open>No call on the client is scheduled to throw.\<close>

definition quiet :: "state \<Rightarrow> bool" where
  "quiet st = list_all (\<lambda>f. f = None) (faults st)"

type_synonym 'a async = "state \<Rightarrow> (error + 'a) \<times> state"

definition return :: "'a \<Rightarrow> 'a async" where
  "return x st = (Inr x, st)"

definition throw :: "error \<Rightarrow> 'a async" where
  "throw e st = (Inl e, st)"

definition await :: "'a async \<Rightarrow> ('a \<Rightarrow> 'b async) \<Rightarrow> 'b async" where
  "await m k st = (case m st of (Inl e, st') \<Rightarrow> (Inl e, st') | (Inr x, st') \<Rightarrow> k x st')"

definition catch :: "'a async \<Rightarrow> (error \<Rightarrow> 'a async) \<Rightarrow> 'a async" where
  "catch m h st = (case m st of (Inl e, st') \<Rightarrow> h e st' | (Inr x, st') \<Rightarrow> (Inr x, st'))"

text \<open>A call on the client: it throws as scheduled, or runs its statement.\<close>

definition query :: "(state \<Rightarrow> 'a \<times> state) \<Rightarrow> 'a async" where
  "query stmt st =
     (case faults st of
        [] \<Rightarrow> (case stmt st of (x, st') \<Rightarrow> (Inr x, st'))
      | None # fs \<Rightarrow> (case stmt (st\<lparr>faults := fs\<rparr>) of (x, st') \<Rightarrow> (Inr x, st'))
      | Some m # fs \<Rightarrow> (Inl (Database m), st\<lparr>faults := fs\<rparr>))"

definition visible :: "state \<Rightarrow> row list" where
  "visible st = (case txn st of None \<Rightarrow> table st | Some w \<Rightarrow> w)"

definition change_rows :: "(row list \<Rightarrow> row list) \<Rightarrow> state \<Rightarrow> unit \<times> state" where
  "change_rows f st =
     (case txn st of
        None \<Rightarrow> ((), st\<lparr>table := f (table st)\<rparr>)
      | Some w \<Rightarrow> ((), st\<lparr>txn := Some (f w)\<rparr>))"

definition sql_select_1 :: "state \<Rightarrow> unit \<times> state" where
  "sql_select_1 st = ((), st)"

definition sql_begin :: "state \<Rightarrow> unit \<times> state" where
  "sql_begin st = ((), st\<lparr>txn := Some (visible st)\<rparr>)"

definition sql_commit :: "state \<Rightarrow> unit \<times> state" where
  "sql_commit st =
     (case txn st of
        None \<Rightarrow> ((), st)
      | Some w \<Rightarrow> ((), st\<lparr>table := w, txn := None\<rparr>))"

definition sql_rollback :: "state \<Rightarrow> unit \<times> state" where
  "sql_rollback st = ((), st\<lparr>txn := None\<rparr>)"

definition sql_insert :: "row \<Rightarrow> state \<Rightarrow> unit \<times> state" where
  "sql_insert r = change_rows (\<lambda>rs. rs @ [r])"

text \<open>
  The columns \<open>transaction_id\<close> and \<open>player_id\<close> have type \<open>UUID\<close>: the store compares
  them by value, not as text. The value of a text that the store accepts as a UUID is the
  sequence of its 32 hexadecimal digits, whatever their case and whatever hyphens and braces
  stand between and around them. A statement with a text that the store does not accept is
  refused, which is a scheduled throw.
\<close>

definition uuid_value :: "string \<Rightarrow> string" where
  "uuid_value s =
     map (\<lambda>c. case map_of (zip ''ABCDEF'' ''abcdef'') c of None \<Rightarrow> c | Some l \<Rightarrow> l)
       (filter (\<lambda>c. c \<in> set ''0123456789abcdefABCDEF'') s)"

definition sql_update_status :: "TransactionStatus \<Rightarrow> int \<Rightarrow> string \<Rightarrow> state \<Rightarrow> unit \<times> state" where
  "sql_update_status s t tid =
     change_rows (map (\<lambda>r. if uuid_value (transaction_id r) = uuid_value tid
                           then r\<lparr>status := s, updated_at := t\<rparr> else r))"

text \<open>
  A new \<open>Client\<close> is assigned to \<open>cachedClient\<close> before \<open>connect\<close> is awaited; its
  session has no open transaction. \<open>connect\<close> is a call on the client that runs no
  statement.
\<close>

definition connect :: "unit async" where
  "connect st = query (\<lambda>s. ((), s)) (st\<lparr>cachedClient := True, txn := None\<rparr>)"

definition getDbClient :: "unit async" where
  "getDbClient st =
     (if cachedClient st then
        (case query sql_select_1 st of
           (Inr _, st') \<Rightarrow> (Inr (), st')
         | (Inl e, st') \<Rightarrow> connect (st'\<lparr>cachedClient := False\<rparr>))
      else connect st)"

subsection \<open>The payment simulation and the purchase pipeline\<close>

text \<open>
  What \<open>uuidv4()\<close> and \<open>new Date()\<close> return during one invocation: the transaction id and
  creation time, the processor id and time stamp of the payment result, and the time of
  the final update.
\<close>

record draws =
  txn_uuid :: string
  now :: int
  proc_uuid :: string
  paid_at :: int
  finalized_at :: int

definition processPayment :: "string \<Rightarrow> int \<Rightarrow> paymentData \<Rightarrow> paymentResult async" where
  "processPayment uuid date paymentData st =
     (let success = amount paymentData < 100000 in
      (Inr \<lparr>success = success,
            processorId = uuid,
            timestamp = date,
            error = (if success then None else Some ''Payment declined'')\<rparr>,
       st\<lparr>authorized := authorized st @ [paymentData]\<rparr>))"

definition pending_row :: "draws \<Rightarrow> purchase \<Rightarrow> row" where
  "pending_row d purchaseData =
     \<lparr>transaction_id = txn_uuid d,
      player_id = purchase.player_id purchaseData,
      item_id = purchase.item_id purchaseData,
      item_name = purchase.item_name purchaseData,
      price_cents = purchase.price_cents purchaseData,
      currency = purchase.currency purchaseData,
      quantity = purchase.quantity purchaseData,
      status = PENDING,
      processor_id = None,
      metadata = (case purchase.metadata purchaseData of None \<Rightarrow> [] | Some m \<Rightarrow> m),
      created_at = now d,
      updated_at = now d\<rparr>"

definition processPurchase :: "draws \<Rightarrow> purchase option \<Rightarrow> out async" where
  "processPurchase d purchaseData =
     await getDbClient (\<lambda>client.
     catch
       (await (query sql_begin) (\<lambda>_.
        case purchaseData of
          None \<Rightarrow> throw (TypeError ''Cannot read properties of undefined (reading 'player_id')'')
        | Some p \<Rightarrow>
            await (query (sql_insert (pending_row d p))) (\<lambda>result.
            await (processPayment (proc_uuid d) (paid_at d)
                     \<lparr>amount = purchase.price_cents p,
                      currency = purchase.currency p,
                      playerId = purchase.player_id p\<rparr>) (\<lambda>paymentResult.
            await (if success paymentResult
                   then query (sql_update_status COMPLETED (finalized_at d) (txn_uuid d))
                   else query (sql_update_status FAILED (finalized_at d) (txn_uuid d))) (\<lambda>_.
            await (query sql_commit) (\<lambda>_.
            return (Obj
              [(''transactionId'', Str (txn_uuid d)),
               (''status'', Str (status_text (if success paymentResult then COMPLETED else FAILED))),
               (''item'', Obj
                  [(''id'', Str (purchase.item_id p)),
                   (''name'', Str (purchase.item_name p)),
                   (''quantity'', Num (purchase.quantity p))]),
               (''payment'', Obj
                  [(''amount'', Num (purchase.price_cents p)),
                   (''currency'', Str (purchase.currency p))])])))))))
       (\<lambda>error. await (query sql_rollback) (\<lambda>_. throw error)))"

subsection \<open>The request schema\<close>

text \<open>
  \<open>purchaseSchema.validate(body)\<close> is called without options, so Joi's default
  preferences apply: \<open>abortEarly\<close> (the first violation ends the validation),
  \<open>convert\<close> (a string is cast to the type of its key: to upper case, from numeric text
  to a number and, in the versions of Joi that do so, from object text to an object), keys
  optional unless \<open>required()\<close>, unknown keys refused. Keys are visited in the order of
  the schema. A \<open>detail\<close> is an entry of \<open>error.details\<close>; the message texts are those
  of Joi 17.
\<close>

record detail =
  message :: string
  path :: string
  type :: string

definition violation :: "string \<Rightarrow> string \<Rightarrow> string \<Rightarrow> detail" where
  "violation label code text =
     \<lparr>message = ''\"'' @ label @ ''\" '' @ text, path = label, type = code\<rparr>"

text \<open>
  What the module takes from outside the repository: Joi's GUID pattern, its casts of a
  string to a number (which may find the text unsafe) and to an object (\<open>None\<close> where
  Joi leaves the string as it is), and the environment variable \<open>NODE_ENV\<close>.
\<close>

datatype coerced = NotNumeric | Unsafe | Numeric number

record config =
  guid :: "string \<Rightarrow> bool"
  number_of :: "string \<Rightarrow> coerced"
  object_of :: "string \<Rightarrow> fields option"
  node_env :: "string option"

definition and_then :: "detail + 'a \<Rightarrow> ('a \<Rightarrow> detail + 'b) \<Rightarrow> detail + 'b" where
  "and_then r k = (case r of Inl d \<Rightarrow> Inl d | Inr x \<Rightarrow> k x)"

definition upper_char :: "char \<Rightarrow> char" where
  "upper_char c =
     (case map_of (zip ''abcdefghijklmnopqrstuvwxyz'' ''ABCDEFGHIJKLMNOPQRSTUVWXYZ'') c of
        None \<Rightarrow> c
      | Some u \<Rightarrow> u)"

text \<open>\<open>Joi.string().required()\<close>: present, a string, and not the empty string.\<close>

definition required_string :: "string \<Rightarrow> json option \<Rightarrow> detail + string" where
  "required_string label v =
     (case v of
        None \<Rightarrow> Inl (violation label ''any.required'' ''is required'')
      | Some (JStr s) \<Rightarrow>
          if s = [] then Inl (violation label ''string.empty'' ''is not allowed to be empty'')
          else Inr s
      | Some _ \<Rightarrow> Inl (violation label ''string.base'' ''must be a string''))"

text \<open>\<open>Joi.number().integer()\<close> on a value that is present; \<open>None\<close> stands for an absent key.\<close>

definition integer_of :: "string \<Rightarrow> number \<Rightarrow> detail + int" where
  "integer_of label n =
     (case n of
        Infinite \<Rightarrow> Inl (violation label ''number.infinity'' ''cannot be infinity'')
      | Fractional \<Rightarrow> Inl (violation label ''number.integer'' ''must be an integer'')
      | Whole i \<Rightarrow>
          if i > 9007199254740991 \<or> i < - 9007199254740991
          then Inl (violation label ''number.unsafe'' ''must be a safe number'')
          else Inr i)"

definition integer_key :: "config \<Rightarrow> string \<Rightarrow> json option \<Rightarrow> detail + int option" where
  "integer_key cfg label v =
     (case v of
        None \<Rightarrow> Inr None
      | Some (JNum n) \<Rightarrow> and_then (integer_of label n) (\<lambda>i. Inr (Some i))
      | Some (JStr s) \<Rightarrow>
          (case number_of cfg s of
             NotNumeric \<Rightarrow> Inl (violation label ''number.base'' ''must be a number'')
           | Unsafe \<Rightarrow> Inl (violation label ''number.unsafe'' ''must be a safe number'')
           | Numeric n \<Rightarrow> and_then (integer_of label n) (\<lambda>i. Inr (Some i)))
      | Some _ \<Rightarrow> Inl (violation label ''number.base'' ''must be a number''))"

definition player_id_key :: "config \<Rightarrow> json option \<Rightarrow> detail + string" where
  "player_id_key cfg v =
     and_then (required_string ''player_id'' v) (\<lambda>s.
       if guid cfg s then Inr s
       else Inl (violation ''player_id'' ''string.guid'' ''must be a valid GUID''))"

definition item_id_key :: "json option \<Rightarrow> detail + string" where
  "item_id_key v = required_string ''item_id'' v"

definition item_name_key :: "json option \<Rightarrow> detail + string" where
  "item_name_key v =
     and_then (required_string ''item_name'' v) (\<lambda>s.
       if length s \<le> 255 then Inr s
       else Inl (violation ''item_name'' ''string.max''
                   ''length must be less than or equal to 255 characters long''))"

definition price_cents_key :: "config \<Rightarrow> json option \<Rightarrow> detail + int" where
  "price_cents_key cfg v =
     and_then (integer_key cfg ''price_cents'' v) (\<lambda>n.
       case n of
         None \<Rightarrow> Inl (violation ''price_cents'' ''any.required'' ''is required'')
       | Some i \<Rightarrow>
           if i < 1 then
             Inl (violation ''price_cents'' ''number.min'' ''must be greater than or equal to 1'')
           else if i > 99999999 then
             Inl (violation ''price_cents'' ''number.max'' ''must be less than or equal to 99999999'')
           else Inr i)"

definition currency_key :: "json option \<Rightarrow> detail + string" where
  "currency_key v =
     and_then
       (required_string ''currency''
          (case v of Some (JStr s) \<Rightarrow> Some (JStr (map upper_char s)) | _ \<Rightarrow> v)) (\<lambda>s.
       if length s = 3 then Inr s
       else Inl (violation ''currency'' ''string.length'' ''length must be 3 characters long''))"

definition quantity_key :: "config \<Rightarrow> json option \<Rightarrow> detail + int" where
  "quantity_key cfg v =
     and_then (integer_key cfg ''quantity'' v) (\<lambda>n.
       case n of
         None \<Rightarrow> Inr 1
       | Some i \<Rightarrow>
           if i < 1 then
             Inl (violation ''quantity'' ''number.min'' ''must be greater than or equal to 1'')
           else if i > 100 then
             Inl (violation ''quantity'' ''number.max'' ''must be less than or equal to 100'')
           else Inr i)"

definition metadata_key :: "config \<Rightarrow> json option \<Rightarrow> detail + fields option" where
  "metadata_key cfg v =
     (case v of
        None \<Rightarrow> Inr None
      | Some (JObj fs) \<Rightarrow> Inr (Some fs)
      | Some (JStr s) \<Rightarrow>
          (case object_of cfg s of
             Some fs \<Rightarrow> Inr (Some fs)
           | None \<Rightarrow> Inl (violation ''metadata'' ''object.base'' ''must be of type object''))
      | Some _ \<Rightarrow> Inl (violation ''metadata'' ''object.base'' ''must be of type object''))"

definition schema_keys :: "string list" where
  "schema_keys =
     [''player_id'', ''item_id'', ''item_name'', ''price_cents'', ''currency'', ''quantity'',
      ''metadata'']"

definition unknown_keys :: "fields \<Rightarrow> detail + unit" where
  "unknown_keys fs =
     (case filter (\<lambda>k. k \<notin> set schema_keys) (map fst fs) of
        [] \<Rightarrow> Inr ()
      | k # _ \<Rightarrow> Inl (violation k ''object.unknown'' ''is not allowed''))"

text \<open>
  For each key of the schema in turn, the violation that the rules of the key report first,
  if any; then the first unknown key.
\<close>

definition violations :: "config \<Rightarrow> fields \<Rightarrow> detail list" where
  "violations cfg fs =
     concat (map (\<lambda>r. case r of Inl d \<Rightarrow> [d] | Inr _ \<Rightarrow> [])
       [map_sum id (\<lambda>_. ()) (player_id_key cfg (map_of fs ''player_id'')),
        map_sum id (\<lambda>_. ()) (item_id_key (map_of fs ''item_id'')),
        map_sum id (\<lambda>_. ()) (item_name_key (map_of fs ''item_name'')),
        map_sum id (\<lambda>_. ()) (price_cents_key cfg (map_of fs ''price_cents'')),
        map_sum id (\<lambda>_. ()) (currency_key (map_of fs ''currency'')),
        map_sum id (\<lambda>_. ()) (quantity_key cfg (map_of fs ''quantity'')),
        map_sum id (\<lambda>_. ()) (metadata_key cfg (map_of fs ''metadata'')),
        unknown_keys fs])"

definition purchaseSchema :: "config \<Rightarrow> fields \<Rightarrow> detail + purchase" where
  "purchaseSchema cfg fs =
     and_then (player_id_key cfg (map_of fs ''player_id'')) (\<lambda>player_id.
     and_then (item_id_key (map_of fs ''item_id'')) (\<lambda>item_id.
     and_then (item_name_key (map_of fs ''item_name'')) (\<lambda>item_name.
     and_then (price_cents_key cfg (map_of fs ''price_cents'')) (\<lambda>price_cents.
     and_then (currency_key (map_of fs ''currency'')) (\<lambda>currency.
     and_then (quantity_key cfg (map_of fs ''quantity'')) (\<lambda>quantity.
     and_then (metadata_key cfg (map_of fs ''metadata'')) (\<lambda>metadata.
     and_then (unknown_keys fs) (\<lambda>_.
       Inr \<lparr>purchase.player_id = player_id,
            purchase.item_id = item_id,
            purchase.item_name = item_name,
            purchase.price_cents = price_cents,
            purchase.currency = currency,
            purchase.quantity = quantity,
            purchase.metadata = metadata\<rparr>))))))))"

text \<open>
  \<open>validate\<close> returns \<open>{ error, value }\<close>: \<open>Inl\<close> carries \<open>error.details\<close>, \<open>Inr\<close> the
  value. The schema is not \<open>required()\<close>, so an undefined body passes with an undefined
  value.
\<close>

definition validate :: "config \<Rightarrow> json option \<Rightarrow> detail list + purchase option" where
  "validate cfg body =
     (case body of
        None \<Rightarrow> Inr None
      | Some v \<Rightarrow>
          (case (case v of
                   JStr s \<Rightarrow> (case object_of cfg s of Some fs \<Rightarrow> JObj fs | None \<Rightarrow> v)
                 | _ \<Rightarrow> v) of
             JObj fs \<Rightarrow>
               (case purchaseSchema cfg fs of
                  Inl d \<Rightarrow> Inl [d]
                | Inr p \<Rightarrow> Inr (Some p))
           | _ \<Rightarrow> Inl [violation ''value'' ''object.base'' ''must be of type object'']))"

subsection \<open>The history read\<close>

text \<open>
  \<open>ORDER BY created_at DESC LIMIT $2\<close>. SQL leaves the order of rows with equal
  \<open>created_at\<close> to the store: the rows are arranged as the store's \<open>tie\<close> has them and
  then sorted by \<open>created_at\<close> descending, rows with equal \<open>created_at\<close> staying as
  arranged. Every order of distinct rows that is descending in \<open>created_at\<close> comes from
  some \<open>tie\<close> (lemma \<open>order_by_created_at_desc_any\<close> below).
\<close>

definition order_by_created_at_desc :: "(row \<Rightarrow> int) \<Rightarrow> row list \<Rightarrow> row list" where
  "order_by_created_at_desc t rs = sort_key (\<lambda>r. - created_at r) (sort_key t rs)"

definition sql_select_player :: "string \<Rightarrow> nat \<Rightarrow> state \<Rightarrow> row list \<times> state" where
  "sql_select_player player limit st =
     (take limit
        (order_by_created_at_desc (tie st)
           (filter (\<lambda>r. uuid_value (row.player_id r) = uuid_value player) (visible st))),
      st)"

definition getPlayerTransactions :: "string \<Rightarrow> nat option \<Rightarrow> row list async" where
  "getPlayerTransactions player limit =
     await getDbClient (\<lambda>client.
     await (query (sql_select_player player (case limit of None \<Rightarrow> 100 | Some n \<Rightarrow> n)))
       (\<lambda>result.
     return result))"

subsection \<open>The Lambda entry point\<close>

text \<open>
  \<open>payload\<close> is the outcome of the expression that reads \<open>event.body\<close>: \<open>JSON.parse\<close>
  throws, or the body is undefined, or it is a value. \<open>requestContext_method\<close> and
  \<open>requestContext_path\<close> are \<open>event.requestContext?.http?.method\<close> and
  \<open>...?.path\<close>. \<open>queryStringParameters\<close> is where a caller of the HTTP interface
  would put a limit or a cursor.
\<close>

datatype payload = Unparsable string | Absent | Parsed json

record event =
  httpMethod :: "string option"
  path :: "string option"
  requestContext_method :: "string option"
  requestContext_path :: "string option"
  body :: payload
  queryStringParameters :: "(string \<times> string) list"

record response =
  statusCode :: nat
  headers :: "(string \<times> string) list"
  body :: out

definition js_or :: "string option \<Rightarrow> string option \<Rightarrow> string option" where
  "js_or a b = (case a of None \<Rightarrow> b | Some s \<Rightarrow> if s = [] then b else Some s)"

fun split :: "char \<Rightarrow> string \<Rightarrow> string list" where
  "split c [] = [[]]"
| "split c (x # xs) =
     (if x = c then [] # split c xs
      else (case split c xs of [] \<Rightarrow> [[x]] | y # ys \<Rightarrow> (x # y) # ys))"

text \<open>\<open>path.split('/')[i]\<close>; \<open>None\<close> is \<open>undefined\<close>.\<close>

definition segment :: "string \<Rightarrow> nat \<Rightarrow> string option" where
  "segment p i = (case drop i (split CHR ''/'' p) of [] \<Rightarrow> None | x # _ \<Rightarrow> Some x)"

definition startsWith :: "string \<Rightarrow> string \<Rightarrow> bool" where
  "startsWith s pre = (take (length pre) s = pre)"

definition reply :: "nat \<Rightarrow> out \<Rightarrow> response" where
  "reply code b =
     \<lparr>statusCode = code, headers = [(''Content-Type'', ''application/json'')], body = b\<rparr>"

definition route :: "config \<Rightarrow> draws \<Rightarrow> event \<Rightarrow> json option \<Rightarrow> response async" where
  "route cfg d event parsed =
     (let method = js_or (httpMethod event) (requestContext_method event);
          path = js_or (event.path event) (requestContext_path event)
      in if method = Some ''POST'' \<and> path = Some ''/purchase'' then
           (case validate cfg parsed of
              Inl details \<Rightarrow>
                return (reply 400 (Obj
                  [(''error'', Str ''Validation failed''),
                   (''details'', Arr (map (\<lambda>d. Str (message d)) details))]))
            | Inr value \<Rightarrow>
                await (processPurchase d value) (\<lambda>result.
                return (reply 201 result)))
         else if method = Some ''GET''
                 \<and> (case path of None \<Rightarrow> False | Some p \<Rightarrow> startsWith p ''/transactions/'') then
           (case segment (case path of None \<Rightarrow> [] | Some p \<Rightarrow> p) 2 of
              None \<Rightarrow> return (reply 400 (Obj [(''error'', Str ''Player ID required'')]))
            | Some player \<Rightarrow>
                if player = [] then
                  return (reply 400 (Obj [(''error'', Str ''Player ID required'')]))
                else
                  await (getPlayerTransactions player None) (\<lambda>transactions.
                  return (reply 200 (Obj [(''transactions'', Rows transactions)]))))
         else return (reply 404 (Obj [(''error'', Str ''Not found'')])))"

definition handler :: "config \<Rightarrow> draws \<Rightarrow> event \<Rightarrow> state \<Rightarrow> response \<times> state" where
  "handler cfg d event st =
     (case (case event.body event of
              Unparsable m \<Rightarrow> throw (SyntaxError m) st
            | Absent \<Rightarrow> route cfg d event None st
            | Parsed v \<Rightarrow> route cfg d event (Some v) st) of
        (Inr r, st') \<Rightarrow> (r, st')
      | (Inl err, st') \<Rightarrow>
          (reply 500 (Obj
             [(''error'', Str ''Internal server error''),
              (''message'', Str (if node_env cfg = Some ''development''
                                 then error_message err
                                 else ''An unexpected error occurred''))]),
           st'))"

subsection \<open>Concrete data\<close>

text \<open>
  A configuration for concrete runs: the GUID pattern in its canonical form (five groups of
  8, 4, 4, 4 and 12 hexadecimal digits), plain decimal digits as numeric text, no cast of
  strings to objects, \<open>NODE_ENV\<close> unset. The runs below use no string that Joi would
  read otherwise.
\<close>

definition canonical_guid :: "string \<Rightarrow> bool" where
  "canonical_guid s =
     (case split CHR ''-'' s of
        [a, b, c, d, e] \<Rightarrow>
          map length [a, b, c, d, e] = [8, 4, 4, 4, 12]
          \<and> list_all (\<lambda>x. x \<in> set ''0123456789abcdefABCDEF'') (a @ b @ c @ d @ e)
      | _ \<Rightarrow> False)"

definition decimal_text :: "string \<Rightarrow> coerced" where
  "decimal_text s =
     (if s \<noteq> [] \<and> list_all (\<lambda>x. x \<in> set ''0123456789'') s then
        (let n = foldl (\<lambda>n x. 10 * n + int (length (takeWhile (\<lambda>y. y \<noteq> x) ''0123456789''))) 0 s
         in if n > 9007199254740991 then Unsafe else Numeric (Whole n))
      else NotNumeric)"

definition cfg0 :: config where
  "cfg0 = \<lparr>guid = canonical_guid, number_of = decimal_text, object_of = (\<lambda>s. None),
           node_env = None\<rparr>"

definition d0 :: draws where
  "d0 = \<lparr>txn_uuid = ''9b2f6c1e-5a4d-4e8b-9c3a-7d1f0e2b4a66'',
         now = 1700000000000,
         proc_uuid = ''0c7e3a52-1b9d-4f60-8a2e-5d4c3b2a1f00'',
         paid_at = 1700000000050,
         finalized_at = 1700000000051\<rparr>"

definition sword :: fields where
  "sword =
     [(''player_id'', JStr ''550e8400-e29b-41d4-a716-446655440000''),
      (''item_id'', JStr ''sword_1''),
      (''item_name'', JStr ''Sword''),
      (''price_cents'', JNum (Whole 1999)),
      (''currency'', JStr ''usd''),
      (''quantity'', JNum (Whole 1))]"

definition castle :: fields where
  "castle =
     [(''player_id'', JStr ''550e8400-e29b-41d4-a716-446655440000''),
      (''item_id'', JStr ''castle_9''),
      (''item_name'', JStr ''Castle''),
      (''price_cents'', JNum (Whole 100000)),
      (''currency'', JStr ''USD'')]"

definition malformed :: fields where
  "malformed =
     [(''player_id'', JStr ''not-a-uuid''),
      (''item_id'', JStr ''sword_1''),
      (''item_name'', JStr ''Sword''),
      (''price_cents'', JNum (Whole 0)),
      (''currency'', JStr ''US''),
      (''quantity'', JNum (Whole 0))]"

definition sword_purchase :: purchase where
  "sword_purchase =
     \<lparr>purchase.player_id = ''550e8400-e29b-41d4-a716-446655440000'',
      purchase.item_id = ''sword_1'',
      purchase.item_name = ''Sword'',
      purchase.price_cents = 1999,
      purchase.currency = ''USD'',
      purchase.quantity = 1,
      purchase.metadata = None\<rparr>"

definition castle_purchase :: purchase where
  "castle_purchase =
     \<lparr>purchase.player_id = ''550e8400-e29b-41d4-a716-446655440000'',
      purchase.item_id = ''castle_9'',
      purchase.item_name = ''Castle'',
      purchase.price_cents = 100000,
      purchase.currency = ''USD'',
      purchase.quantity = 1,
      purchase.metadata = None\<rparr>"

text \<open>
  Two units at 60000 cents each: the unit price is below the limit of the payment
  simulation, the total is not.
\<close>

definition bulk_purchase :: purchase where
  "bulk_purchase = sword_purchase\<lparr>purchase.price_cents := 60000, purchase.quantity := 2\<rparr>"

definition fresh :: state where
  "fresh = \<lparr>table = [], cachedClient = False, txn = None, faults = [], authorized = [],
            tie = (\<lambda>r. 0)\<rparr>"

text \<open>The connection, \<open>BEGIN\<close> and \<open>INSERT\<close> pass; the \<open>UPDATE\<close> throws.\<close>

definition finalize_fails :: state where
  "finalize_fails = fresh\<lparr>faults := [None, None, None, Some ''Connection terminated unexpectedly'']\<rparr>"

text \<open>As before, and the \<open>ROLLBACK\<close> throws as well.\<close>

definition rollback_fails :: state where
  "rollback_fails =
     fresh\<lparr>faults := [None, None, None, Some ''Query read timeout'', Some ''Query read timeout'']\<rparr>"

definition post_purchase :: "payload \<Rightarrow> event" where
  "post_purchase b =
     \<lparr>httpMethod = Some ''POST'', path = Some ''/purchase'', requestContext_method = None,
      requestContext_path = None, body = b, queryStringParameters = []\<rparr>"

definition get_transactions :: "(string \<times> string) list \<Rightarrow> event" where
  "get_transactions q =
     \<lparr>httpMethod = Some ''GET'',
      path = Some ''/transactions/550e8400-e29b-41d4-a716-446655440000'',
      requestContext_method = None, requestContext_path = None, body = Parsed JNull,
      queryStringParameters = q\<rparr>"

text \<open>A table of 1001 purchases of one player, with distinct ids and creation times.\<close>

fun hex :: "nat \<Rightarrow> nat \<Rightarrow> string" where
  "hex 0 n = []"
| "hex (Suc k) n = hex k (n div 16) @ [''0123456789abcdef'' ! (n mod 16)]"

definition history_row :: "nat \<Rightarrow> row" where
  "history_row i =
     \<lparr>transaction_id = ''00000000-0000-4000-8000-'' @ hex 12 i,
      player_id = ''550e8400-e29b-41d4-a716-446655440000'',
      item_id = ''sword_1'',
      item_name = ''Sword'',
      price_cents = 1999,
      currency = ''USD'',
      quantity = 1,
      status = COMPLETED,
      processor_id = None,
      metadata = [],
      created_at = 1700000000000 + int i,
      updated_at = 1700000000000 + int i\<rparr>"

definition recent_history :: state where
  "recent_history = fresh\<lparr>table := [history_row 0, history_row 1, history_row 2]\<rparr>"

definition long_history :: state where
  "long_history = fresh\<lparr>table := map history_row [0..<1001]\<rparr>"

section \<open>Properties\<close>

subsection \<open>Store calls that do not throw\<close>

lemmas sql_defs = sql_begin_def sql_commit_def sql_rollback_def sql_insert_def
  sql_update_status_def sql_select_1_def change_rows_def visible_def

lemmas run_defs = processPurchase_def await_def catch_def throw_def return_def query_def
  getDbClient_def connect_def processPayment_def pending_row_def Let_def

lemma all_none_tl: "list_all (\<lambda>f. f = None) fs \<Longrightarrow> list_all (\<lambda>f. f = None) (tl fs)"
  by (cases fs) simp_all

lemma query_quiet:
  "query stmt st =
     (Inr (fst (stmt (st\<lparr>faults := tl (faults st)\<rparr>))), snd (stmt (st\<lparr>faults := tl (faults st)\<rparr>)))"
  if "quiet st"
  using that
  by (cases st) (auto simp: quiet_def query_def split: prod.splits list.splits option.splits)

lemma getDbClient_quiet:
  "quiet st \<Longrightarrow>
   getDbClient st =
     (Inr (), st\<lparr>faults := tl (faults st), cachedClient := True,
                 txn := (if cachedClient st then txn st else None)\<rparr>)"
  by (auto simp: getDbClient_def connect_def query_quiet sql_select_1_def quiet_def)

lemma getDbClient_table: "table (snd (getDbClient st)) = table st"
  by (auto simp: getDbClient_def connect_def query_def sql_select_1_def
           split: list.splits option.splits prod.splits)

lemma validate_sword: "validate cfg0 (Some (JObj sword)) = Inr (Some sword_purchase)"
  by (simp add: validate_def purchaseSchema_def and_then_def player_id_key_def item_id_key_def
        item_name_key_def price_cents_key_def currency_key_def quantity_key_def metadata_key_def
        unknown_keys_def schema_keys_def required_string_def integer_key_def integer_of_def
        upper_char_def cfg0_def canonical_guid_def sword_def sword_purchase_def)

lemma validate_castle: "validate cfg0 (Some (JObj castle)) = Inr (Some castle_purchase)"
  by (simp add: validate_def purchaseSchema_def and_then_def player_id_key_def item_id_key_def
        item_name_key_def price_cents_key_def currency_key_def quantity_key_def metadata_key_def
        unknown_keys_def schema_keys_def required_string_def integer_key_def integer_of_def
        upper_char_def cfg0_def canonical_guid_def castle_def castle_purchase_def)

subsection \<open>The payment simulation\<close>

text \<open>
  C10. The success flag of a payment result is decided by the amount alone: it holds
  exactly when the amount is below 100000, so two payment requests with the same amount
  get the same flag, whatever their currency and player, and whatever the processor id
  and time drawn for them.
\<close>

theorem processPayment_success_by_amount:
  "(case fst (processPayment uuid date pd st) of
      Inl e \<Rightarrow> False
    | Inr r \<Rightarrow> success r = (amount pd < 100000))
   \<and> (amount pd = amount pd' \<longrightarrow>
        map_sum id success (fst (processPayment uuid date pd st)) =
        map_sum id success (fst (processPayment uuid' date' pd' st')))"
  by (simp add: processPayment_def Let_def)

theorem processPayment_success_by_amount_witness:
  "amount \<lparr>amount = 99999, currency = ''USD'', playerId = ''550e8400-e29b-41d4-a716-446655440000''\<rparr>
     = amount \<lparr>amount = 99999, currency = ''EUR'', playerId = ''7c9e6679-7425-40de-944b-e07fc1f90ae7''\<rparr>
   \<and> map_sum id success
        (fst (processPayment (proc_uuid d0) (paid_at d0)
           \<lparr>amount = 99999, currency = ''USD'', playerId = ''550e8400-e29b-41d4-a716-446655440000''\<rparr> fresh))
     = map_sum id success
        (fst (processPayment (txn_uuid d0) (now d0)
           \<lparr>amount = 99999, currency = ''EUR'', playerId = ''7c9e6679-7425-40de-944b-e07fc1f90ae7''\<rparr>
           finalize_fails))"
  using processPayment_success_by_amount
    [where uuid = "proc_uuid d0" and date = "paid_at d0" and st = fresh
       and pd = "\<lparr>amount = 99999, currency = ''USD'', playerId = ''550e8400-e29b-41d4-a716-446655440000''\<rparr>"
       and pd' = "\<lparr>amount = 99999, currency = ''EUR'', playerId = ''7c9e6679-7425-40de-944b-e07fc1f90ae7''\<rparr>"
       and uuid' = "txn_uuid d0" and date' = "now d0" and st' = finalize_fails]
  by simp

text \<open>
  C4 (amended). A payment result always carries the processor id generated for it. It
  carries a failure reason exactly when it is not a success, and the reason is then
  \<open>Payment declined\<close>. So a success has a processor id and no reason, and a failure
  has a reason together with a processor id.
\<close>

theorem payment_result_shape:
  "(case fst (processPayment uuid date pd st) of
      Inl e \<Rightarrow> False
    | Inr r \<Rightarrow>
        processorId r = uuid
        \<and> (success r \<longleftrightarrow> error r = None)
        \<and> (success r \<or> error r = Some ''Payment declined''))"
  by (simp add: processPayment_def Let_def)

text \<open>A declined payment of 100000 cents carries both a processor id and a reason.\<close>

theorem payment_result_shape_counterexample:
  "fst (processPayment ''0c7e3a52-1b9d-4f60-8a2e-5d4c3b2a1f00'' 1700000000050
          \<lparr>amount = 100000, currency = ''USD'', playerId = ''550e8400-e29b-41d4-a716-446655440000''\<rparr>
          fresh)
   = Inr \<lparr>success = False,
          processorId = ''0c7e3a52-1b9d-4f60-8a2e-5d4c3b2a1f00'',
          timestamp = 1700000000050,
          error = Some ''Payment declined''\<rparr>"
  by (simp add: processPayment_def)

subsection \<open>The purchase pipeline\<close>

text \<open>
  C1 (amended). When the client has been obtained, \<open>BEGIN\<close> and the \<open>INSERT\<close> have
  passed and the status \<open>UPDATE\<close> throws, \<open>processPurchase\<close> issues \<open>ROLLBACK\<close> and
  rethrows: the caller gets a \<open>Database\<close> error, never a response, and the committed table
  is what it was before the call. When the \<open>ROLLBACK\<close> passes, the error is that of the
  update, the transaction is closed and the pending row is discarded: the rows visible
  afterwards are the committed table. When the \<open>ROLLBACK\<close> throws as well, its error is the
  one rethrown and the pending row is left in the open, uncommitted transaction of the
  connection. The theorem gives the whole state after the call.
\<close>

theorem finalize_fault_rolls_back:
  assumes "getDbClient st = (Inr (), st1)"
    and "faults st1 = None # None # Some m # rest"
  shows "processPurchase d (Some p) st =
           (Inl (Database (case rest of Some m' # _ \<Rightarrow> m' | _ \<Rightarrow> m)),
            st1\<lparr>faults := tl rest,
                txn := (case rest of
                          Some m' # _ \<Rightarrow> Some (visible st1 @ [pending_row d p])
                        | _ \<Rightarrow> None),
                authorized := authorized st1 @
                  [\<lparr>amount = purchase.price_cents p, currency = purchase.currency p,
                    playerId = purchase.player_id p\<rparr>]\<rparr>)
         \<and> table (snd (processPurchase d (Some p) st)) = table st
         \<and> (case rest of
               Some m' # _ \<Rightarrow> True
             | _ \<Rightarrow> visible (snd (processPurchase d (Some p) st)) = table st)"
proof -
  have t: "table st1 = table st"
    using getDbClient_table [of st] assms(1) by simp
  have run: "processPurchase d (Some p) st =
           (Inl (Database (case rest of Some m' # _ \<Rightarrow> m' | _ \<Rightarrow> m)),
            st1\<lparr>faults := tl rest,
                txn := (case rest of
                          Some m' # _ \<Rightarrow> Some (visible st1 @ [pending_row d p])
                        | _ \<Rightarrow> None),
                authorized := authorized st1 @
                  [\<lparr>amount = purchase.price_cents p, currency = purchase.currency p,
                    playerId = purchase.player_id p\<rparr>]\<rparr>)"
    using assms
    by (simp add: processPurchase_def await_def catch_def throw_def return_def query_def
          processPayment_def Let_def sql_defs split: list.splits option.splits)
  show ?thesis
    unfolding run using t
    by (simp add: visible_def split: list.splits option.splits)
qed

theorem finalize_fault_rolls_back_witness:
  "getDbClient finalize_fails =
     (Inr (), fresh\<lparr>cachedClient := True,
                    faults := [None, None, Some ''Connection terminated unexpectedly'']\<rparr>)
   \<and> faults (fresh\<lparr>cachedClient := True,
                    faults := [None, None, Some ''Connection terminated unexpectedly'']\<rparr>)
       = None # None # Some ''Connection terminated unexpectedly'' # []
   \<and> processPurchase d0 (Some sword_purchase) finalize_fails
       = (Inl (Database ''Connection terminated unexpectedly''),
          fresh\<lparr>cachedClient := True,
                authorized := [\<lparr>amount = 1999, currency = ''USD'',
                                 playerId = ''550e8400-e29b-41d4-a716-446655440000''\<rparr>]\<rparr>)
   \<and> getDbClient rollback_fails =
     (Inr (), fresh\<lparr>cachedClient := True,
                    faults := [None, None, Some ''Query read timeout'', Some ''Query read timeout'']\<rparr>)
   \<and> processPurchase d0 (Some sword_purchase) rollback_fails
       = (Inl (Database ''Query read timeout''),
          fresh\<lparr>cachedClient := True,
                txn := Some [pending_row d0 sword_purchase],
                authorized := [\<lparr>amount = 1999, currency = ''USD'',
                                 playerId = ''550e8400-e29b-41d4-a716-446655440000''\<rparr>]\<rparr>)
   \<and> table (snd (processPurchase d0 (Some sword_purchase) rollback_fails)) = []"
proof -
  let ?a = "fresh\<lparr>cachedClient := True,
                    faults := [None, None, Some ''Connection terminated unexpectedly'']\<rparr>"
  let ?b = "fresh\<lparr>cachedClient := True,
                    faults := [None, None, Some ''Query read timeout'', Some ''Query read timeout'']\<rparr>"
  have a1: "getDbClient finalize_fails = (Inr (), ?a)"
    by (simp add: getDbClient_def connect_def query_def finalize_fails_def fresh_def)
  have a2: "faults ?a = None # None # Some ''Connection terminated unexpectedly'' # []"
    by simp
  have b1: "getDbClient rollback_fails = (Inr (), ?b)"
    by (simp add: getDbClient_def connect_def query_def rollback_fails_def fresh_def)
  have b2: "faults ?b = None # None # Some ''Query read timeout'' # [Some ''Query read timeout'']"
    by simp
  from finalize_fault_rolls_back [OF a1 a2, of d0 sword_purchase]
       finalize_fault_rolls_back [OF b1 b2, of d0 sword_purchase] a1 a2 b1
  show ?thesis
    by (simp add: fresh_def visible_def sword_purchase_def)
qed

text \<open>
  On an empty store, with the update failing, no row is left: neither committed nor
  visible to the connection.
\<close>

theorem finalize_fault_keeps_pending_counterexample:
  "fst (processPurchase d0 (Some sword_purchase) finalize_fails)
     = Inl (Database ''Connection terminated unexpectedly'')
   \<and> table (snd (processPurchase d0 (Some sword_purchase) finalize_fails)) = []
   \<and> visible (snd (processPurchase d0 (Some sword_purchase) finalize_fails)) = []"
  by (simp add: run_defs sql_defs finalize_fails_def fresh_def d0_def sword_purchase_def)

text \<open>
  C2 (amended). For every request that passed the schema, if no call on the store throws,
  \<open>processPurchase\<close> returns the transaction id, the status \<open>completed\<close> when
  \<open>price_cents < 100000\<close> and \<open>failed\<close> otherwise, the item and the payment amount and
  currency. The response has no processor id in either case.
\<close>

theorem purchase_status_by_price:
  assumes "validate cfg parsed = Inr (Some p)"
    and "quiet st"
  shows "fst (processPurchase d (Some p) st) =
           Inr (Obj
             [(''transactionId'', Str (txn_uuid d)),
              (''status'', Str (if purchase.price_cents p < 100000 then ''completed'' else ''failed'')),
              (''item'', Obj
                 [(''id'', Str (purchase.item_id p)),
                  (''name'', Str (purchase.item_name p)),
                  (''quantity'', Num (purchase.quantity p))]),
              (''payment'', Obj
                 [(''amount'', Num (purchase.price_cents p)),
                  (''currency'', Str (purchase.currency p))])])"
  using assms(2)
  by (simp add: processPurchase_def await_def catch_def throw_def return_def
        getDbClient_quiet query_quiet quiet_def all_none_tl
        processPayment_def Let_def sql_defs split: option.splits)

theorem purchase_status_by_price_witness:
  "validate cfg0 (Some (JObj sword)) = Inr (Some sword_purchase)
   \<and> validate cfg0 (Some (JObj castle)) = Inr (Some castle_purchase)
   \<and> quiet fresh
   \<and> fst (processPurchase d0 (Some sword_purchase) fresh) =
       Inr (Obj
         [(''transactionId'', Str ''9b2f6c1e-5a4d-4e8b-9c3a-7d1f0e2b4a66''),
          (''status'', Str ''completed''),
          (''item'', Obj [(''id'', Str ''sword_1''), (''name'', Str ''Sword''), (''quantity'', Num 1)]),
          (''payment'', Obj [(''amount'', Num 1999), (''currency'', Str ''USD'')])])
   \<and> fst (processPurchase d0 (Some castle_purchase) fresh) =
       Inr (Obj
         [(''transactionId'', Str ''9b2f6c1e-5a4d-4e8b-9c3a-7d1f0e2b4a66''),
          (''status'', Str ''failed''),
          (''item'', Obj [(''id'', Str ''castle_9''), (''name'', Str ''Castle''), (''quantity'', Num 1)]),
          (''payment'', Obj [(''amount'', Num 100000), (''currency'', Str ''USD'')])])"
proof -
  have q: "quiet fresh"
    by (simp add: quiet_def fresh_def)
  from purchase_status_by_price [OF validate_sword q, of d0]
       purchase_status_by_price [OF validate_castle q, of d0]
       validate_sword validate_castle q
  show ?thesis
    by (simp add: d0_def sword_purchase_def castle_purchase_def)
qed

text \<open>
  A completed purchase of 1999 cents: neither the response nor its \<open>payment\<close> part nor the
  stored row holds a processor id.
\<close>

theorem purchase_processor_id_counterexample:
  "(case fst (processPurchase d0 (Some sword_purchase) fresh) of
      Inl e \<Rightarrow> False
    | Inr r \<Rightarrow>
        field ''status'' r = Some (Str ''completed'')
        \<and> field ''processor_id'' r = None
        \<and> field ''processorId'' r = None
        \<and> field ''payment'' r = Some (Obj [(''amount'', Num 1999), (''currency'', Str ''USD'')]))
   \<and> map processor_id (table (snd (processPurchase d0 (Some sword_purchase) fresh))) = [None]"
  by (simp add: run_defs sql_defs fresh_def d0_def sword_purchase_def)

text \<open>
  C7. The payment request that \<open>processPurchase\<close> sends to the processor carries the
  request's \<open>price_cents\<close> as its amount, not multiplied by \<open>quantity\<close>: a call sends
  no payment request at all (a store call threw before) or exactly this one, and it sends
  this one whenever no store call throws.
\<close>

theorem authorized_amount_is_price:
  "(authorized (snd (processPurchase d (Some p) st)) = authorized st
    \<or> authorized (snd (processPurchase d (Some p) st)) =
        authorized st @ [\<lparr>amount = purchase.price_cents p, currency = purchase.currency p,
                          playerId = purchase.player_id p\<rparr>])
   \<and> (quiet st \<longrightarrow>
        authorized (snd (processPurchase d (Some p) st)) =
        authorized st @ [\<lparr>amount = purchase.price_cents p, currency = purchase.currency p,
                          playerId = purchase.player_id p\<rparr>])"
proof
  show "authorized (snd (processPurchase d (Some p) st)) = authorized st
    \<or> authorized (snd (processPurchase d (Some p) st)) =
        authorized st @ [\<lparr>amount = purchase.price_cents p, currency = purchase.currency p,
                          playerId = purchase.player_id p\<rparr>]"
    by (simp add: run_defs sql_defs split: list.splits option.splits prod.splits)
next
  show "quiet st \<longrightarrow>
        authorized (snd (processPurchase d (Some p) st)) =
        authorized st @ [\<lparr>amount = purchase.price_cents p, currency = purchase.currency p,
                          playerId = purchase.player_id p\<rparr>]"
    by (simp add: processPurchase_def await_def catch_def throw_def return_def
        getDbClient_quiet query_quiet quiet_def all_none_tl
        processPayment_def Let_def sql_defs split: option.splits)
qed

theorem authorized_amount_is_price_witness:
  "quiet fresh
   \<and> purchase.price_cents bulk_purchase * purchase.quantity bulk_purchase = 120000
   \<and> authorized (snd (processPurchase d0 (Some bulk_purchase) fresh)) =
       [\<lparr>amount = 60000, currency = ''USD'', playerId = ''550e8400-e29b-41d4-a716-446655440000''\<rparr>]"
proof -
  have q: "quiet fresh"
    by (simp add: quiet_def fresh_def)
  from authorized_amount_is_price [of d0 bulk_purchase fresh] q
  show ?thesis
    by (simp add: bulk_purchase_def sword_purchase_def fresh_def)
qed

subsection \<open>Validation\<close>

lemmas key_defs = player_id_key_def item_id_key_def item_name_key_def price_cents_key_def
  currency_key_def quantity_key_def metadata_key_def unknown_keys_def schema_keys_def
  required_string_def integer_key_def integer_of_def upper_char_def

lemma purchaseSchema_first_violation:
  "(case purchaseSchema cfg fs of
      Inl v \<Rightarrow> violations cfg fs \<noteq> [] \<and> [v] = take 1 (violations cfg fs)
    | Inr p \<Rightarrow> violations cfg fs = [])"
  by (simp add: purchaseSchema_def violations_def and_then_def split: sum.splits)

lemma validate_single: "validate cfg parsed = Inl ds \<Longrightarrow> length ds = 1"
  by (auto simp: validate_def split: option.splits json.splits sum.splits)

lemma validate_malformed:
  "validate cfg0 (Some (JObj malformed)) =
     Inl [violation ''player_id'' ''string.guid'' ''must be a valid GUID'']"
  by (simp add: validate_def purchaseSchema_def and_then_def player_id_key_def
        required_string_def cfg0_def canonical_guid_def malformed_def)

lemma violations_malformed:
  "violations cfg0 malformed =
     [violation ''player_id'' ''string.guid'' ''must be a valid GUID'',
      violation ''price_cents'' ''number.min'' ''must be greater than or equal to 1'',
      violation ''currency'' ''string.length'' ''length must be 3 characters long'',
      violation ''quantity'' ''number.min'' ''must be greater than or equal to 1'']"
  by (simp add: violations_def key_defs cfg0_def canonical_guid_def malformed_def and_then_def)

text \<open>
  C3 (amended). A request that violates one or more constraints of the schema is answered
  with a single error whose details hold exactly one violation: the first one in the order
  in which the schema visits its keys (\<open>player_id\<close>, \<open>item_id\<close>, \<open>item_name\<close>,
  \<open>price_cents\<close>, \<open>currency\<close>, \<open>quantity\<close>, \<open>metadata\<close>, then unknown keys); a request
  without violation passes. In particular the request with \<open>price_cents = 0\<close>,
  \<open>quantity = 0\<close>, \<open>currency = "US"\<close> and a \<open>player_id\<close> that is not a GUID is rejected
  with the \<open>player_id\<close> violation alone.
\<close>

theorem validation_reports_first_violation:
  "(validate cfg parsed = Inl ds \<longrightarrow> length ds = 1)
   \<and> (case validate cfg (Some (JObj fs)) of
        Inl ds' \<Rightarrow> violations cfg fs \<noteq> [] \<and> ds' = take 1 (violations cfg fs)
      | Inr value \<Rightarrow> violations cfg fs = [])
   \<and> (pid \<noteq> [] \<and> \<not> guid cfg pid \<longrightarrow>
        validate cfg (Some (JObj
          [(''player_id'', JStr pid),
           (''item_id'', JStr item),
           (''item_name'', JStr name),
           (''price_cents'', JNum (Whole 0)),
           (''currency'', JStr ''US''),
           (''quantity'', JNum (Whole 0))]))
        = Inl [violation ''player_id'' ''string.guid'' ''must be a valid GUID''])"
proof (intro conjI)
  show "validate cfg parsed = Inl ds \<longrightarrow> length ds = 1"
    by (simp add: validate_single)
next
  show "case validate cfg (Some (JObj fs)) of
        Inl ds' \<Rightarrow> violations cfg fs \<noteq> [] \<and> ds' = take 1 (violations cfg fs)
      | Inr value \<Rightarrow> violations cfg fs = []"
    using purchaseSchema_first_violation [of cfg fs]
    by (simp add: validate_def split: sum.splits)
next
  show "pid \<noteq> [] \<and> \<not> guid cfg pid \<longrightarrow>
        validate cfg (Some (JObj
          [(''player_id'', JStr pid),
           (''item_id'', JStr item),
           (''item_name'', JStr name),
           (''price_cents'', JNum (Whole 0)),
           (''currency'', JStr ''US''),
           (''quantity'', JNum (Whole 0))]))
        = Inl [violation ''player_id'' ''string.guid'' ''must be a valid GUID'']"
    by (simp add: validate_def purchaseSchema_def and_then_def player_id_key_def
          required_string_def)
qed

theorem validation_reports_first_violation_witness:
  "validate cfg0 (Some (JObj malformed)) =
     Inl [violation ''player_id'' ''string.guid'' ''must be a valid GUID'']
   \<and> length [violation ''player_id'' ''string.guid'' ''must be a valid GUID''] = 1
   \<and> violations cfg0 malformed \<noteq> []
   \<and> [violation ''player_id'' ''string.guid'' ''must be a valid GUID''] = take 1 (violations cfg0 malformed)
   \<and> ''not-a-uuid'' \<noteq> [] \<and> \<not> guid cfg0 ''not-a-uuid''"
proof -
  have g: "''not-a-uuid'' \<noteq> [] \<and> \<not> guid cfg0 ''not-a-uuid''"
    by (simp add: cfg0_def canonical_guid_def)
  from validation_reports_first_violation
         [of cfg0 "Some (JObj malformed)"
             "[violation ''player_id'' ''string.guid'' ''must be a valid GUID'']"
             malformed "''not-a-uuid''" "''sword_1''" "''Sword''"]
       validate_malformed g
  show ?thesis
    by (simp add: violations_malformed)
qed

text \<open>
  The request of the claim violates four constraints; the error lists one of them.
\<close>

theorem validation_lists_every_violation_counterexample:
  "map detail.path (violations cfg0 malformed) = [''player_id'', ''price_cents'', ''currency'', ''quantity'']
   \<and> (case validate cfg0 (Some (JObj malformed)) of
         Inl ds \<Rightarrow> map detail.path ds
       | Inr value \<Rightarrow> []) = [''player_id'']"
  by (simp add: validate_malformed violations_malformed violation_def)

text \<open>
  C8. A purchase request that fails validation is answered at once with status 400 and the
  messages of the validation error; the state is left as it was: no connection is opened,
  no statement is sent, no row is written and no payment is requested.
\<close>

theorem validation_failure_leaves_no_trace:
  assumes "js_or (httpMethod event) (requestContext_method event) = Some ''POST''"
    and "js_or (event.path event) (requestContext_path event) = Some ''/purchase''"
    and "event.body event = Parsed v"
    and "validate cfg (Some v) = Inl details"
  shows "handler cfg d event st =
           (reply 400 (Obj
              [(''error'', Str ''Validation failed''),
               (''details'', Arr (map (\<lambda>x. Str (message x)) details))]),
            st)"
  using assms
  by (simp add: handler_def route_def return_def)

theorem validation_failure_leaves_no_trace_witness:
  "js_or (httpMethod (post_purchase (Parsed (JObj malformed))))
         (requestContext_method (post_purchase (Parsed (JObj malformed)))) = Some ''POST''
   \<and> js_or (event.path (post_purchase (Parsed (JObj malformed))))
         (requestContext_path (post_purchase (Parsed (JObj malformed)))) = Some ''/purchase''
   \<and> event.body (post_purchase (Parsed (JObj malformed))) = Parsed (JObj malformed)
   \<and> validate cfg0 (Some (JObj malformed)) =
        Inl [violation ''player_id'' ''string.guid'' ''must be a valid GUID'']
   \<and> handler cfg0 d0 (post_purchase (Parsed (JObj malformed))) recent_history =
        (reply 400 (Obj
           [(''error'', Str ''Validation failed''),
            (''details'', Arr [Str ''\"player_id\" must be a valid GUID''])]),
         recent_history)"
proof -
  have m: "js_or (httpMethod (post_purchase (Parsed (JObj malformed))))
         (requestContext_method (post_purchase (Parsed (JObj malformed)))) = Some ''POST''"
    by (simp add: js_or_def post_purchase_def)
  have p: "js_or (event.path (post_purchase (Parsed (JObj malformed))))
         (requestContext_path (post_purchase (Parsed (JObj malformed)))) = Some ''/purchase''"
    by (simp add: js_or_def post_purchase_def)
  have b: "event.body (post_purchase (Parsed (JObj malformed))) = Parsed (JObj malformed)"
    by (simp add: post_purchase_def)
  from validation_failure_leaves_no_trace [OF m p b validate_malformed, of d0 recent_history]
       m p b validate_malformed
  show ?thesis
    by (simp add: violation_def)
qed

subsection \<open>The history read\<close>

lemma order_by_created_at_desc_sorted:
  "sorted_wrt (\<lambda>a b. created_at b \<le> created_at a) (order_by_created_at_desc t rs)"
  using sorted_sort_key [of "\<lambda>r. - created_at r" "sort_key t rs"]
  by (simp add: order_by_created_at_desc_def sorted_map)

lemma order_by_created_at_desc_mset:
  "mset (order_by_created_at_desc t rs) = mset rs"
  by (simp add: order_by_created_at_desc_def)

lemma order_by_created_at_desc_length:
  "length (order_by_created_at_desc t rs) = length rs"
  by (simp add: order_by_created_at_desc_def)

lemma order_by_created_at_desc_set:
  "set (order_by_created_at_desc t rs) = set rs"
  by (simp add: order_by_created_at_desc_def)

lemma position_nth:
  "distinct ys \<Longrightarrow> i < length ys \<Longrightarrow> length (takeWhile (\<lambda>x. x \<noteq> ys ! i) ys) = i"
proof (induction ys arbitrary: i)
  case Nil
  then show ?case by simp
next
  case (Cons a as)
  show ?case
  proof (cases i)
    case 0
    then show ?thesis by simp
  next
    case (Suc j)
    with Cons.prems have "j < length as" and "as ! j \<noteq> a"
      by auto
    with Cons Suc show ?thesis by simp
  qed
qed

lemma filter_same_key:
  assumes "mset ys = mset xs"
    and "\<And>x. x \<in> set xs \<Longrightarrow> (f k = f x) = (k = x)"
  shows "filter (\<lambda>x. f k = f x) ys = filter (\<lambda>x. f k = f x) xs"
proof -
  have s: "set ys = set xs"
    using assms(1) by (rule mset_eq_setD)
  have "filter (\<lambda>x. f k = f x) ys = filter (\<lambda>x. x = k) ys"
    using assms(2) s by (intro filter_cong) auto
  also have "\<dots> = replicate (count (mset ys) k) k"
    by (induction ys) auto
  also have "\<dots> = replicate (count (mset xs) k) k"
    using assms(1) by simp
  also have "\<dots> = filter (\<lambda>x. x = k) xs"
    by (induction xs) auto
  also have "\<dots> = filter (\<lambda>x. f k = f x) xs"
    using assms(2) by (intro filter_cong) auto
  finally show ?thesis .
qed

text \<open>
  The ordering leaves every choice among equal \<open>created_at\<close> to \<open>tie\<close>: any arrangement
  of distinct rows that is descending in \<open>created_at\<close> is the result for some \<open>tie\<close>.
\<close>

lemma order_by_created_at_desc_any:
  assumes "distinct ys" and "mset ys = mset xs"
    and "sorted_wrt (\<lambda>a b. created_at b \<le> created_at a) ys"
  shows "\<exists>t. order_by_created_at_desc t xs = ys"
proof -
  define t where "t r = int (length (takeWhile (\<lambda>x. x \<noteq> r) ys))" for r
  have pos: "t (ys ! i) = int i" if "i < length ys" for i
    using position_nth [OF assms(1) that] by (simp add: t_def)
  have inj: "(t k = t x) = (k = x)" if "k \<in> set ys" "x \<in> set ys" for k x
  proof -
    from that(1) obtain i where i: "i < length ys" "k = ys ! i"
      by (auto simp: in_set_conv_nth)
    from that(2) obtain j where j: "j < length ys" "x = ys ! j"
      by (auto simp: in_set_conv_nth)
    have "t k = int i" and "t x = int j"
      unfolding i(2) j(2) by (rule pos [OF i(1)], rule pos [OF j(1)])
    moreover have "(ys ! i = ys ! j) = (i = j)"
      by (rule nth_eq_iff_index_eq [OF assms(1) i(1) j(1)])
    ultimately show ?thesis
      unfolding i(2) j(2) by simp
  qed
  have "map t ys = map int [0..<length ys]"
    by (rule nth_equalityI) (simp_all add: pos)
  then have st: "sorted (map t ys)"
    by (simp add: sorted_map)
  have "sort_key t xs = ys"
  proof (rule properties_for_sort_key [OF assms(2) _ st])
    fix k
    assume k: "k \<in> set ys"
    show "filter (\<lambda>x. t k = t x) ys = filter (\<lambda>x. t k = t x) xs"
    proof (rule filter_same_key [OF assms(2)])
      fix x
      assume "x \<in> set xs"
      then have "x \<in> set ys"
        using mset_eq_setD [OF assms(2)] by simp
      with k show "(t k = t x) = (k = x)"
        by (rule inj)
    qed
  qed
  moreover have "sort_key (\<lambda>r. - created_at r) ys = ys"
    using assms(3) by (intro sort_key_id_if_sorted) (simp add: sorted_map)
  ultimately have "order_by_created_at_desc t xs = ys"
    by (simp add: order_by_created_at_desc_def)
  then show ?thesis by blast
qed

lemma getPlayerTransactions_rows:
  "getPlayerTransactions player limit st = (Inr rs, st') \<Longrightarrow>
   rs = take (case limit of None \<Rightarrow> 100 | Some n \<Rightarrow> n)
          (order_by_created_at_desc (tie st')
             (filter (\<lambda>r. uuid_value (row.player_id r) = uuid_value player) (visible st')))"
  by (auto simp: getPlayerTransactions_def await_def return_def query_def getDbClient_def
        connect_def sql_select_1_def sql_select_player_def visible_def
        split: list.splits option.splits if_splits prod.splits sum.splits)

lemma getPlayerTransactions_quiet_run:
  "quiet st \<Longrightarrow>
   getPlayerTransactions player limit st =
     (Inr (take (case limit of None \<Rightarrow> 100 | Some n \<Rightarrow> n)
            (order_by_created_at_desc (tie st)
               (filter (\<lambda>r. uuid_value (row.player_id r) = uuid_value player)
                  (if cachedClient st then visible st else table st)))),
      st\<lparr>faults := tl (tl (faults st)), cachedClient := True,
         txn := (if cachedClient st then txn st else None)\<rparr>)"
  by (simp add: getPlayerTransactions_def await_def return_def getDbClient_quiet query_quiet
        quiet_def all_none_tl sql_select_player_def visible_def split: option.splits)

lemma history_row_sel:
  "created_at (history_row i) = 1700000000000 + int i"
  "row.player_id (history_row i) = ''550e8400-e29b-41d4-a716-446655440000''"
  by (simp_all add: history_row_def)

lemma history_rows_of_player:
  "uuid_value player = uuid_value ''550e8400-e29b-41d4-a716-446655440000'' \<Longrightarrow>
   filter (\<lambda>r. uuid_value (row.player_id r) = uuid_value player) (map history_row xs)
     = map history_row xs"
  by (induction xs) (simp_all add: history_row_sel)

lemma upper_case_player:
  "uuid_value ''550E8400-E29B-41D4-A716-446655440000''
     = uuid_value ''550e8400-e29b-41d4-a716-446655440000''"
  by (simp add: uuid_value_def)

lemma history_row_inj: "(history_row i = history_row j) = (i = j)"
proof
  assume "history_row i = history_row j"
  then have "created_at (history_row i) = created_at (history_row j)"
    by simp
  then show "i = j"
    by (simp add: history_row_sel)
qed simp

lemma history_rows_order:
  "order_by_created_at_desc t (map history_row [m..<n]) = map history_row (rev [m..<n])"
proof -
  let ?f = "\<lambda>r. - created_at r"
  let ?xs = "sort_key t (map history_row [m..<n])"
  let ?ys = "map history_row (rev [m..<n])"
  have m: "mset ?ys = mset ?xs"
    by simp
  have s: "sorted (map ?f ?ys)"
    by (simp add: sorted_map sorted_wrt_rev history_row_sel o_def)
  have "sort_key ?f ?xs = ?ys"
  proof (rule properties_for_sort_key [OF m _ s])
    fix k
    assume "k \<in> set ?ys"
    then obtain i where k: "k = history_row i"
      by auto
    show "filter (\<lambda>x. ?f k = ?f x) ?ys = filter (\<lambda>x. ?f k = ?f x) ?xs"
    proof (rule filter_same_key [OF m])
      fix x
      assume "x \<in> set ?xs"
      then obtain j where x: "x = history_row j"
        by auto
      show "(?f k = ?f x) = (k = x)"
        unfolding k x by (simp add: history_row_sel history_row_inj)
    qed
  qed
  then show ?thesis
    by (simp add: order_by_created_at_desc_def)
qed

lemma quiet_long_history: "quiet long_history"
  by (simp add: quiet_def long_history_def fresh_def)

lemma get_transactions_route:
  "js_or (httpMethod (get_transactions q)) (requestContext_method (get_transactions q)) = Some ''GET''"
  "js_or (event.path (get_transactions q)) (requestContext_path (get_transactions q))
     = Some ''/transactions/550e8400-e29b-41d4-a716-446655440000''"
  "startsWith ''/transactions/550e8400-e29b-41d4-a716-446655440000'' ''/transactions/''"
  "segment ''/transactions/550e8400-e29b-41d4-a716-446655440000'' 2
     = Some ''550e8400-e29b-41d4-a716-446655440000''"
  "event.body (get_transactions q) = Parsed JNull"
  by (simp_all add: get_transactions_def js_or_def startsWith_def segment_def)

lemma recent_history_page:
  "uuid_value player = uuid_value ''550e8400-e29b-41d4-a716-446655440000'' \<Longrightarrow>
   getPlayerTransactions player None recent_history =
     (Inr [history_row 2, history_row 1, history_row 0], recent_history\<lparr>cachedClient := True\<rparr>)"
  by (simp add: getPlayerTransactions_def await_def return_def getDbClient_def connect_def
        query_def sql_select_1_def sql_select_player_def visible_def recent_history_def
        fresh_def order_by_created_at_desc_def history_row_sel)

lemma long_history_page:
  assumes "uuid_value player = uuid_value ''550e8400-e29b-41d4-a716-446655440000''"
  shows "getPlayerTransactions player None long_history =
     (Inr (map history_row (rev [901..<1001])), long_history\<lparr>cachedClient := True\<rparr>)"
proof -
  have "table long_history = map history_row [0..<1001]" "\<not> cachedClient long_history"
    "faults long_history = []" "txn long_history = None"
    by (simp_all add: long_history_def fresh_def)
  then show ?thesis
    by (simp add: getPlayerTransactions_quiet_run [OF quiet_long_history]
          history_rows_of_player [OF assms] history_rows_order take_map take_rev
          del: upt_rec_numeral)
qed

lemma long_history_all:
  "fst (getPlayerTransactions ''550e8400-e29b-41d4-a716-446655440000'' (Some 1001) long_history) =
     Inr (map history_row (rev [0..<1001]))"
proof -
  have "table long_history = map history_row [0..<1001]" "\<not> cachedClient long_history"
    by (simp_all add: long_history_def fresh_def)
  then show ?thesis
    by (simp add: getPlayerTransactions_quiet_run [OF quiet_long_history] history_rows_of_player
          history_rows_order take_map take_rev del: upt_rec_numeral)
qed

lemma recent_history_response:
  "handler cfg0 d0 (get_transactions q) recent_history =
     (reply 200 (Obj [(''transactions'', Rows [history_row 2, history_row 1, history_row 0])]),
      recent_history\<lparr>cachedClient := True\<rparr>)"
  by (simp add: handler_def route_def get_transactions_route recent_history_page await_def return_def)

lemma long_history_response:
  "handler cfg0 d0 (get_transactions q) long_history =
     (reply 200 (Obj [(''transactions'', Rows (map history_row (rev [901..<1001])))]),
      long_history\<lparr>cachedClient := True\<rparr>)"
  by (simp add: handler_def route_def get_transactions_route long_history_page await_def return_def)

lemma upper_case_route:
  "js_or (httpMethod ((get_transactions [])
            \<lparr>path := Some ''/transactions/550E8400-E29B-41D4-A716-446655440000''\<rparr>))
         (requestContext_method ((get_transactions [])
            \<lparr>path := Some ''/transactions/550E8400-E29B-41D4-A716-446655440000''\<rparr>)) = Some ''GET''"
  "js_or (event.path ((get_transactions [])
            \<lparr>path := Some ''/transactions/550E8400-E29B-41D4-A716-446655440000''\<rparr>))
         (requestContext_path ((get_transactions [])
            \<lparr>path := Some ''/transactions/550E8400-E29B-41D4-A716-446655440000''\<rparr>))
     = Some ''/transactions/550E8400-E29B-41D4-A716-446655440000''"
  "startsWith ''/transactions/550E8400-E29B-41D4-A716-446655440000'' ''/transactions/''"
  "segment ''/transactions/550E8400-E29B-41D4-A716-446655440000'' 2
     = Some ''550E8400-E29B-41D4-A716-446655440000''"
  "''550E8400-E29B-41D4-A716-446655440000'' \<noteq> []"
  "case event.body ((get_transactions [])
          \<lparr>path := Some ''/transactions/550E8400-E29B-41D4-A716-446655440000''\<rparr>) of
     Unparsable m \<Rightarrow> False | _ \<Rightarrow> True"
  by (simp_all add: get_transactions_def js_or_def startsWith_def segment_def)

lemma hex_901: "hex 12 901 = ''000000000385''"
  by code_simp

lemma history_row_901:
  "transaction_id (history_row 901) = ''00000000-0000-4000-8000-000000000385''"
  "last (map history_row (rev [901..<1001])) = history_row 901"
  by (simp_all add: history_row_def hex_901 last_map last_rev del: upt_rec_numeral)

lemma get_transactions_quiet:
  "quiet st \<Longrightarrow>
   handler cfg d (get_transactions q) st =
     (reply 200 (Obj [(''transactions'',
        Rows (take 100
               (order_by_created_at_desc (tie st)
                  (filter (\<lambda>r. uuid_value (row.player_id r)
                                = uuid_value ''550e8400-e29b-41d4-a716-446655440000'')
                     (if cachedClient st then visible st else table st)))))]),
      st\<lparr>faults := tl (tl (faults st)), cachedClient := True,
         txn := (if cachedClient st then txn st else None)\<rparr>)"
  by (simp add: handler_def route_def get_transactions_route getPlayerTransactions_quiet_run
        await_def return_def)

lemma long_table_response:
  assumes "quiet st" and "txn st = None" and "table st = map history_row [0..<1001]"
  shows "response.body (fst (handler cfg d (get_transactions q) st))
           = Obj [(''transactions'', Rows (map history_row (rev [901..<1001])))]"
  using assms(2,3)
  by (simp add: get_transactions_quiet [OF assms(1)] reply_def visible_def history_rows_of_player
        history_rows_order take_map take_rev del: upt_rec_numeral)

lemma after_first_page:
  "quiet (snd (handler cfg d (get_transactions q) long_history))"
  "txn (snd (handler cfg d (get_transactions q) long_history)) = None"
  "table (snd (handler cfg d (get_transactions q) long_history)) = map history_row [0..<1001]"
  unfolding get_transactions_quiet [OF quiet_long_history]
  by (simp_all add: quiet_def long_history_def fresh_def del: upt_rec_numeral)

text \<open>
  C6 (amended). When the query does not throw, \<open>getPlayerTransactions\<close> returns rows of
  the given player only, the player being compared as a UUID value, ordered by
  \<open>created_at\<close> descending; the order among rows with equal \<open>created_at\<close> is the store's
  and not fixed by the statement. It returns as many rows as the limit allows: the caller's
  limit, or 100 when none is given, with no upper bound on it. The rows are always the first
  ones of the player's ordered history: the function takes no cursor.
\<close>

theorem history_query_order_and_limit:
  assumes "getPlayerTransactions player limit st = (Inr rs, st')"
  shows "sorted_wrt (\<lambda>a b. created_at b \<le> created_at a) rs
         \<and> list_all (\<lambda>r. uuid_value (row.player_id r) = uuid_value player) rs
         \<and> length rs = min (case limit of None \<Rightarrow> 100 | Some n \<Rightarrow> n)
              (length (filter (\<lambda>r. uuid_value (row.player_id r) = uuid_value player)
                         (visible st')))
         \<and> rs = take (case limit of None \<Rightarrow> 100 | Some n \<Rightarrow> n)
                  (order_by_created_at_desc (tie st')
                     (filter (\<lambda>r. uuid_value (row.player_id r) = uuid_value player)
                        (visible st')))
         \<and> mset (order_by_created_at_desc (tie st')
                    (filter (\<lambda>r. uuid_value (row.player_id r) = uuid_value player)
                       (visible st')))
             = mset (filter (\<lambda>r. uuid_value (row.player_id r) = uuid_value player)
                       (visible st'))"
proof -
  let ?n = "case limit of None \<Rightarrow> 100 | Some n \<Rightarrow> n"
  let ?matching = "filter (\<lambda>r. uuid_value (row.player_id r) = uuid_value player) (visible st')"
  have rs: "rs = take ?n (order_by_created_at_desc (tie st') ?matching)"
    using assms by (rule getPlayerTransactions_rows)
  have "sorted_wrt (\<lambda>a b. created_at b \<le> created_at a) rs"
    unfolding rs by (rule sorted_wrt_take) (rule order_by_created_at_desc_sorted)
  moreover have "set rs \<subseteq> set ?matching"
    unfolding rs using set_take_subset [of ?n "order_by_created_at_desc (tie st') ?matching"]
    by (simp add: order_by_created_at_desc_set)
  then have "list_all (\<lambda>r. uuid_value (row.player_id r) = uuid_value player) rs"
    by (auto simp: list_all_iff)
  moreover have "length rs = min ?n (length ?matching)"
    unfolding rs by (simp add: order_by_created_at_desc_length min.commute)
  ultimately show ?thesis
    using rs by (simp add: order_by_created_at_desc_mset)
qed

theorem history_query_order_and_limit_witness:
  "getPlayerTransactions ''550E8400-E29B-41D4-A716-446655440000'' None recent_history =
     (Inr [history_row 2, history_row 1, history_row 0], recent_history\<lparr>cachedClient := True\<rparr>)
   \<and> sorted_wrt (\<lambda>a b. created_at b \<le> created_at a) [history_row 2, history_row 1, history_row 0]
   \<and> list_all (\<lambda>r. uuid_value (row.player_id r)
                      = uuid_value ''550E8400-E29B-41D4-A716-446655440000'')
        [history_row 2, history_row 1, history_row 0]
   \<and> length [history_row 2, history_row 1, history_row 0] =
       min (case None of None \<Rightarrow> 100 | Some n \<Rightarrow> n)
         (length (filter (\<lambda>r. uuid_value (row.player_id r)
                               = uuid_value ''550E8400-E29B-41D4-A716-446655440000'')
                    (visible (recent_history\<lparr>cachedClient := True\<rparr>))))"
proof -
  note h = recent_history_page [OF upper_case_player]
  note c = history_query_order_and_limit [OF h]
  from c have "sorted_wrt (\<lambda>a b. created_at b \<le> created_at a)
                 [history_row 2, history_row 1, history_row 0]"
    by (rule conjunct1)
  moreover from c have "list_all (\<lambda>r. uuid_value (row.player_id r)
                      = uuid_value ''550E8400-E29B-41D4-A716-446655440000'')
                          [history_row 2, history_row 1, history_row 0]"
    by (elim conjE)
  moreover from c have "length [history_row 2, history_row 1, history_row 0] =
       min (case None of None \<Rightarrow> 100 | Some n \<Rightarrow> n)
         (length (filter (\<lambda>r. uuid_value (row.player_id r)
                               = uuid_value ''550E8400-E29B-41D4-A716-446655440000'')
                    (visible (recent_history\<lparr>cachedClient := True\<rparr>))))"
    by (elim conjE)
  ultimately show ?thesis
    using h by (intro conjI)
qed

text \<open>
  A player has 1001 purchases. A request for the history gets the 100 most recent rows. The
  next request, on the state that the first one left, names the id of the last of these rows
  as cursor and gets the same 100 rows again. Called with a limit of 1001, the query returns
  all 1001 rows.
\<close>

theorem history_cursor_and_cap_counterexample:
  "response.body (fst (handler cfg0 d0 (get_transactions []) long_history))
     = Obj [(''transactions'', Rows (map history_row (rev [901..<1001])))]
   \<and> transaction_id (last (map history_row (rev [901..<1001])))
       = ''00000000-0000-4000-8000-000000000385''
   \<and> response.body
        (fst (handler cfg0 d0
                (get_transactions [(''cursor'', ''00000000-0000-4000-8000-000000000385'')])
                (snd (handler cfg0 d0 (get_transactions []) long_history))))
       = Obj [(''transactions'', Rows (map history_row (rev [901..<1001])))]
   \<and> fst (getPlayerTransactions ''550e8400-e29b-41d4-a716-446655440000'' (Some 1001) long_history)
       = Inr (map history_row (rev [0..<1001]))
   \<and> length (map history_row (rev [0..<1001])) = 1001"
proof -
  have first: "response.body (fst (handler cfg0 d0 (get_transactions []) long_history))
     = Obj [(''transactions'', Rows (map history_row (rev [901..<1001])))]"
  proof (rule long_table_response [OF quiet_long_history])
    show "txn long_history = None" and "table long_history = map history_row [0..<1001]"
      by (simp_all add: long_history_def fresh_def)
  qed
  have second: "response.body
        (fst (handler cfg0 d0
                (get_transactions [(''cursor'', ''00000000-0000-4000-8000-000000000385'')])
                (snd (handler cfg0 d0 (get_transactions []) long_history))))
       = Obj [(''transactions'', Rows (map history_row (rev [901..<1001])))]"
    by (rule long_table_response) (rule after_first_page)+
  show ?thesis
    using first second long_history_all
    by (simp add: history_row_901 del: upt_rec_numeral)
qed

text \<open>
  C5 (amended). The history read returns the transaction sequence alone. A response of the
  handler with status 200 is the answer to a history request: its body is the object with the
  single key \<open>transactions\<close>, holding exactly the rows that \<open>getPlayerTransactions\<close>
  returned for the player named by the third segment of the path, and the state is the one
  that call left. There is no \<open>has_more\<close> flag.
\<close>

theorem history_response_is_transactions_only:
  assumes "statusCode (fst (handler cfg d event st)) = 200"
  shows "(\<exists>p player rs st'.
            js_or (event.path event) (requestContext_path event) = Some p
            \<and> segment p 2 = Some player
            \<and> getPlayerTransactions player None st = (Inr rs, st')
            \<and> handler cfg d event st = (reply 200 (Obj [(''transactions'', Rows rs)]), st'))
         \<and> field ''has_more'' (response.body (fst (handler cfg d event st))) = None"
  using assms
  by (auto simp: handler_def route_def await_def return_def throw_def reply_def Let_def
        split: payload.splits prod.splits sum.splits option.splits if_splits)

theorem history_response_is_transactions_only_witness:
  "statusCode (fst (handler cfg0 d0 (get_transactions []) recent_history)) = 200
   \<and> ((\<exists>p player rs st'.
          js_or (event.path (get_transactions [])) (requestContext_path (get_transactions []))
            = Some p
          \<and> segment p 2 = Some player
          \<and> getPlayerTransactions player None recent_history = (Inr rs, st')
          \<and> handler cfg0 d0 (get_transactions []) recent_history
              = (reply 200 (Obj [(''transactions'', Rows rs)]), st'))
      \<and> field ''has_more'' (response.body (fst (handler cfg0 d0 (get_transactions []) recent_history)))
          = None)"
proof (rule conjI)
  show ok: "statusCode (fst (handler cfg0 d0 (get_transactions []) recent_history)) = 200"
    by (simp add: recent_history_response reply_def)
  show "(\<exists>p player rs st'.
          js_or (event.path (get_transactions [])) (requestContext_path (get_transactions []))
            = Some p
          \<and> segment p 2 = Some player
          \<and> getPlayerTransactions player None recent_history = (Inr rs, st')
          \<and> handler cfg0 d0 (get_transactions []) recent_history
              = (reply 200 (Obj [(''transactions'', Rows rs)]), st'))
      \<and> field ''has_more'' (response.body (fst (handler cfg0 d0 (get_transactions []) recent_history)))
          = None"
    by (rule history_response_is_transactions_only [OF ok])
qed

text \<open>
  A player with 1001 purchases gets a page of 100 rows, so more rows exist beyond the page,
  and the response has no \<open>has_more\<close> key.
\<close>

theorem history_has_more_counterexample:
  "handler cfg0 d0 (get_transactions []) long_history
     = (reply 200 (Obj [(''transactions'', Rows (map history_row (rev [901..<1001])))]),
        long_history\<lparr>cachedClient := True\<rparr>)
   \<and> length (map history_row (rev [901..<1001])) = 100
   \<and> length (filter (\<lambda>r. uuid_value (row.player_id r)
                         = uuid_value ''550e8400-e29b-41d4-a716-446655440000'')
                (table long_history)) = 1001
   \<and> field ''has_more'' (response.body (fst (handler cfg0 d0 (get_transactions []) long_history)))
       = None"
proof -
  have "table long_history = map history_row [0..<1001]"
    by (simp add: long_history_def fresh_def)
  then show ?thesis
    by (simp add: long_history_response reply_def history_rows_of_player del: upt_rec_numeral)
qed

text \<open>
  C9. A history request through the handler (method \<open>GET\<close>, a path that starts with
  \<open>/transactions/\<close> and has a non-empty third segment, a body that parses) calls
  \<open>getPlayerTransactions\<close> with the player of the path and no limit, whatever the query
  string parameters of the event hold: the store is asked for 100 rows, and the response
  carries at most 100 rows, the first of the player's ordered history.
\<close>

theorem history_request_uses_default_limit:
  assumes "js_or (httpMethod event) (requestContext_method event) = Some ''GET''"
    and "js_or (event.path event) (requestContext_path event) = Some p"
    and "startsWith p ''/transactions/''"
    and "segment p 2 = Some player"
    and "player \<noteq> []"
    and "case event.body event of Unparsable m \<Rightarrow> False | _ \<Rightarrow> True"
  shows "handler cfg d (event\<lparr>queryStringParameters := q\<rparr>) st =
           (case getPlayerTransactions player None st of
              (Inl err, st') \<Rightarrow>
                (reply 500 (Obj
                   [(''error'', Str ''Internal server error''),
                    (''message'', Str (if node_env cfg = Some ''development''
                                       then error_message err
                                       else ''An unexpected error occurred''))]),
                 st')
            | (Inr rs, st') \<Rightarrow> (reply 200 (Obj [(''transactions'', Rows rs)]), st'))
         \<and> (case getPlayerTransactions player None st of
              (Inl err, st') \<Rightarrow> True
            | (Inr rs, st') \<Rightarrow>
                length rs \<le> 100
                \<and> rs = take 100
                     (order_by_created_at_desc (tie st')
                        (filter (\<lambda>r. uuid_value (row.player_id r) = uuid_value player)
                           (visible st'))))"
proof
  show "handler cfg d (event\<lparr>queryStringParameters := q\<rparr>) st =
           (case getPlayerTransactions player None st of
              (Inl err, st') \<Rightarrow>
                (reply 500 (Obj
                   [(''error'', Str ''Internal server error''),
                    (''message'', Str (if node_env cfg = Some ''development''
                                       then error_message err
                                       else ''An unexpected error occurred''))]),
                 st')
            | (Inr rs, st') \<Rightarrow> (reply 200 (Obj [(''transactions'', Rows rs)]), st'))"
    using assms
    by (simp add: handler_def route_def await_def return_def
          split: payload.splits prod.splits sum.splits)
next
  show "case getPlayerTransactions player None st of
              (Inl err, st') \<Rightarrow> True
            | (Inr rs, st') \<Rightarrow>
                length rs \<le> 100
                \<and> rs = take 100
                     (order_by_created_at_desc (tie st')
                        (filter (\<lambda>r. uuid_value (row.player_id r) = uuid_value player)
                           (visible st')))"
    using getPlayerTransactions_rows [of player None st]
    by (auto split: prod.splits sum.splits)
qed

theorem history_request_uses_default_limit_witness:
  "js_or (httpMethod ((get_transactions [])
            \<lparr>path := Some ''/transactions/550E8400-E29B-41D4-A716-446655440000''\<rparr>))
         (requestContext_method ((get_transactions [])
            \<lparr>path := Some ''/transactions/550E8400-E29B-41D4-A716-446655440000''\<rparr>)) = Some ''GET''
   \<and> js_or (event.path ((get_transactions [])
            \<lparr>path := Some ''/transactions/550E8400-E29B-41D4-A716-446655440000''\<rparr>))
         (requestContext_path ((get_transactions [])
            \<lparr>path := Some ''/transactions/550E8400-E29B-41D4-A716-446655440000''\<rparr>))
       = Some ''/transactions/550E8400-E29B-41D4-A716-446655440000''
   \<and> startsWith ''/transactions/550E8400-E29B-41D4-A716-446655440000'' ''/transactions/''
   \<and> segment ''/transactions/550E8400-E29B-41D4-A716-446655440000'' 2
       = Some ''550E8400-E29B-41D4-A716-446655440000''
   \<and> ''550E8400-E29B-41D4-A716-446655440000'' \<noteq> []
   \<and> (case event.body ((get_transactions [])
            \<lparr>path := Some ''/transactions/550E8400-E29B-41D4-A716-446655440000''\<rparr>) of
         Unparsable m \<Rightarrow> False | _ \<Rightarrow> True)
   \<and> handler cfg0 d0
        ((get_transactions [])
           \<lparr>path := Some ''/transactions/550E8400-E29B-41D4-A716-446655440000'',
             queryStringParameters :=
               [(''limit'', ''1000''), (''cursor'', ''00000000-0000-4000-8000-000000000385'')]\<rparr>)
        long_history
       = (reply 200 (Obj [(''transactions'', Rows (map history_row (rev [901..<1001])))]),
          long_history\<lparr>cachedClient := True\<rparr>)
   \<and> length (map history_row (rev [901..<1001])) \<le> 100"
proof -
  note t = history_request_uses_default_limit
             [OF upper_case_route,
              where cfg = cfg0 and d = d0 and st = long_history
                and q = "[(''limit'', ''1000''), (''cursor'', ''00000000-0000-4000-8000-000000000385'')]"]
  from t [unfolded long_history_page [OF upper_case_player]] upper_case_route
  show ?thesis
    by simp
qed

end
